theory Spec2Isabelle
  imports Complex_Main "HOL-Library.AList"
begin

section \<open>The HTTP client of agentops (src/agentops/http\_client.py)\<close>

text \<open>
  The module has two classes. \<^verbatim>\<open>Response\<close> holds the outcome of one request and
  classifies a status code; \<^verbatim>\<open>HttpClient\<close> keeps one shared \<^verbatim>\<open>requests.Session\<close>,
  composes the headers of a request and performs POST and GET. Everything the code does
  beyond computing a value is explicit below: the class attribute \<^verbatim>\<open>_session\<close> is a field
  of the process state, a call of the \<^verbatim>\<open>requests\<close> library is a parameter that maps the
  request to what the library returns or raises, and every \<^verbatim>\<open>raise\<close> is a value.
\<close>

subsection \<open>Response and the status classifier\<close>

text \<open>
  Modelled from the spec: the enum \<^verbatim>\<open>HttpStatus\<close> of \<^verbatim>\<open>agentops/enums.py\<close>, which is
  imported by the module and is not among the sources. Its members are the outcome
  categories of the spec.
\<close>

datatype HttpStatus =
  SUCCESS | TOO_MANY_REQUESTS | PAYLOAD_TOO_LARGE | TIMEOUT
  | INVALID_API_KEY | INVALID_REQUEST | FAILED | UNKNOWN

text \<open>
  Modelled from the spec: \<^verbatim>\<open>HttpStatus.UNKNOWN.value\<close>, the code a fresh \<^verbatim>\<open>Response()\<close>
  starts with. The spec classifies \<open>-1\<close> as UNKNOWN. No caller ever sees the value:
  \<^verbatim>\<open>parse\<close> overwrites \<^verbatim>\<open>code\<close> before a Response is returned.
\<close>

definition UNKNOWN_value :: int where
  "UNKNOWN_value = - 1"

text \<open>
  A response body is whatever \<^verbatim>\<open>res.json()\<close> yields: a JSON object (a dict) as a rule,
  but also an array, a string, a number, a boolean or null. The code looks at a body in
  three ways only, all in the branch for code 400: the test \<^verbatim>\<open>"message" in body\<close>, the
  text \<^verbatim>\<open>str(body["message"])\<close> of that member and the text \<^verbatim>\<open>str(body)\<close> of the whole. So
  a body is kept as
  \<^item> an object: its members, each value as its text, and the text of the whole;
  \<^item> an array or a string: whether \<^verbatim>\<open>"message" in body\<close> holds (an element of the array,
    a substring of the string), and the text of the whole; subscripting either with
    \<^verbatim>\<open>"message"\<close> raises \<^verbatim>\<open>TypeError\<close>;
  \<^item> a number, a boolean or null: its text; the test \<^verbatim>\<open>in\<close> itself raises \<^verbatim>\<open>TypeError\<close>.
\<close>

datatype json_doc =
  JObject "(string \<times> string) list" string
  | JSequence bool string
  | JScalar string

definition empty_doc :: json_doc where
  "empty_doc = JObject [] ''{}''"

record Response =
  status :: HttpStatus
  code :: int
  body :: json_doc

text \<open>\<^verbatim>\<open>Response()\<close>: status UNKNOWN, its value as code, the empty body.\<close>

definition Response_init :: Response where
  "Response_init = \<lparr>status = UNKNOWN, code = UNKNOWN_value, body = empty_doc\<rparr>"

text \<open>\<^verbatim>\<open>Response.get_status\<close>: the chain of tests in the order of the source.\<close>

definition get_status :: "int \<Rightarrow> HttpStatus" where
  "get_status c =
     (if 200 \<le> c \<and> c < 300 then SUCCESS
      else if c = 429 then TOO_MANY_REQUESTS
      else if c = 413 then PAYLOAD_TOO_LARGE
      else if c = 408 then TIMEOUT
      else if c = 401 then INVALID_API_KEY
      else if 400 \<le> c \<and> c < 500 then INVALID_REQUEST
      else if c \<ge> 500 then FAILED
      else UNKNOWN)"

subsection \<open>What the requests library hands back\<close>

text \<open>
  \<^verbatim>\<open>res.json()\<close> either yields the parsed body or raises. What it raises is
  \<^verbatim>\<open>requests.exceptions.JSONDecodeError\<close>, a subclass of \<^verbatim>\<open>RequestException\<close>, in the
  current library, and an exception outside \<^verbatim>\<open>requests.exceptions\<close> (a \<^verbatim>\<open>ValueError\<close>) in
  older ones; the handlers of \<^verbatim>\<open>post\<close> and \<^verbatim>\<open>get\<close> treat the two differently, so both
  are kept. Each carries its text \<^verbatim>\<open>str(e)\<close>.
\<close>

datatype json_failure = JSONDecodeError string | ValueError string

record raw_response =
  status_code :: int
  json :: "json_failure + json_doc"

text \<open>
  A call of \<^verbatim>\<open>session.post\<close> or \<^verbatim>\<open>session.get\<close> returns a response or raises. The
  handlers tell four kinds of exception apart: \<^verbatim>\<open>Timeout\<close>, \<^verbatim>\<open>HTTPError\<close> (with its
  \<^verbatim>\<open>response\<close> attribute, which may be \<^verbatim>\<open>None\<close>, and its text), any other
  \<^verbatim>\<open>RequestException\<close>, and anything else, which no handler catches.
\<close>

datatype transport_outcome =
  Returned raw_response
  | Raised_Timeout
  | Raised_HTTPError "raw_response option" string
  | Raised_RequestException string
  | Raised_other string

text \<open>
  What a call of \<^verbatim>\<open>post\<close> or \<^verbatim>\<open>get\<close> raises: an \<^verbatim>\<open>ApiServerException\<close> with its message
  (the class is imported from \<^verbatim>\<open>agentops/exceptions.py\<close>; only its message is used), or
  an exception that passes through uncaught, with its text (the name of its class where
  Python itself raises it).
\<close>

datatype error = ApiServerException string | Propagated string

text \<open>
  \<^verbatim>\<open>Response.parse\<close>: \<^verbatim>\<open>res.json()\<close> runs first, so a failure leaves \<^verbatim>\<open>self\<close> as it was;
  otherwise the three fields are overwritten.
\<close>

definition parse :: "Response \<Rightarrow> raw_response \<Rightarrow> json_failure + Response" where
  "parse self res =
     (case json res of
        Inl e \<Rightarrow> Inl e
      | Inr res_body \<Rightarrow>
          Inr (self\<lparr>code := status_code res,
                    status := get_status (status_code res),
                    body := res_body\<rparr>))"

subsection \<open>The shared session\<close>

text \<open>
  What \<^verbatim>\<open>get_session\<close> does to the session it creates. It builds one adapter and
  mounts it for both schemes; a fresh \<^verbatim>\<open>requests.Session\<close> has adapters for exactly these
  two prefixes, so afterwards every prefix leads to the new adapter. The adapters are a
  map from prefix to adapter (the order in which the library keeps them is its own
  affair). The session's headers are not rebuilt here: the field \<open>headers_update\<close> is the
  dict that the code passes to \<^verbatim>\<open>session.headers.update\<close>, and the entries the library
  puts there by itself stay as they are. The literal \<^verbatim>\<open>0.1\<close> of the backoff factor is
  kept as the decimal fraction it denotes.
\<close>

record Retry =
  total :: nat
  backoff_factor :: rat
  status_forcelist :: "int list"

record HTTPAdapter =
  pool_connections :: nat
  pool_maxsize :: nat
  max_retries :: Retry

record Session =
  adapters :: "string \<rightharpoonup> HTTPAdapter"
  headers_update :: "(string \<times> string) list"

definition new_adapter :: HTTPAdapter where
  "new_adapter =
     \<lparr>pool_connections = 15,
      pool_maxsize = 256,
      max_retries = \<lparr>total = 3, backoff_factor = 1 / 10,
                     status_forcelist = [500, 502, 503, 504]\<rparr>\<rparr>"

definition new_session :: Session where
  "new_session =
     \<lparr>adapters = [''http://'' \<mapsto> new_adapter, ''https://'' \<mapsto> new_adapter],
      headers_update =
        [(''Connection'', ''keep-alive''),
         (''Keep-Alive'', ''timeout=10, max=1000''),
         (''Content-Type'', ''application/json'')]\<rparr>"

datatype http_method = GET | POST

text \<open>
  A header name is a Python \<^verbatim>\<open>str\<close>: a sequence of Unicode code points. \<open>ascii\<close> writes
  the names that occur in the source. Header values, URLs, payloads and messages are
  kept as plain text: the code passes them on and never looks inside them.
\<close>

type_synonym str = "nat list"

definition ascii :: "string \<Rightarrow> str" where
  "ascii t = map of_char t"

text \<open>The arguments of one call of \<^verbatim>\<open>session.post\<close> or \<^verbatim>\<open>session.get\<close>.\<close>

record request =
  req_method :: http_method
  url :: string
  data :: "string option"
  req_headers :: "(str \<times> string) list"
  timeout :: int

text \<open>
  Modelled from the spec: the descriptor of a failed request that the dead-letter queue
  holds. The tests import a module-level \<^verbatim>\<open>dead_letter_queue\<close> from this module; the
  module does not define one.
\<close>

record descriptor =
  d_method :: http_method
  d_url :: string
  d_payload :: "string option"
  d_api_key :: "string option"
  d_parent_key :: "string option"
  d_jwt :: "string option"
  error_type :: string

text \<open>
  The state of the process as far as the client is concerned: the class attribute
  \<^verbatim>\<open>HttpClient._session\<close>, the requests handed to the library so far, in order, and the
  dead-letter queue (modelled from the spec, as above: a list of descriptors in enqueue
  order).
\<close>

record client_state =
  session :: "Session option"
  sent :: "request list"
  dlq :: "descriptor list"

definition get_session :: "client_state \<Rightarrow> Session \<times> client_state" where
  "get_session s =
     (case session s of
        None \<Rightarrow> (new_session, s\<lparr>session := Some new_session\<rparr>)
      | Some sess \<Rightarrow> (sess, s))"

subsection \<open>Header composition\<close>

text \<open>
  \<^verbatim>\<open>k.lower()\<close> is the built-in of Python, with the case mapping of Unicode behind it. It
  is a parameter, \<open>lower\<close>, of everything that composes headers. What the properties
  below need of it is stated as \<open>lowers_proper_case\<close>: it maps each canonical name of the
  table to the key it is stored under (as \<^verbatim>\<open>'Content-Type'.lower() == 'content-type'\<close>).
\<close>

definition JSON_HEADER :: "(str \<times> string) list" where
  "JSON_HEADER =
     [(ascii ''Content-Type'', ''application/json; charset=UTF-8''), (ascii ''Accept'', ''*/*'')]"

definition proper_case :: "(str \<times> str) list" where
  "proper_case =
     [(ascii ''content-type'', ascii ''Content-Type''),
      (ascii ''accept'', ascii ''Accept''),
      (ascii ''x-agentops-api-key'', ascii ''X-AgentOps-Api-Key''),
      (ascii ''x-agentops-parent-key'', ascii ''X-AgentOps-Parent-Key''),
      (ascii ''authorization'', ascii ''Authorization'')]"

definition lowers_proper_case :: "(str \<Rightarrow> str) \<Rightarrow> bool" where
  "lowers_proper_case lower = (\<forall>(l, p) \<in> set proper_case. lower p = l)"

text \<open>
  One such function, for the examples: the lower-case form of a name made of ASCII
  characters and of U+212A KELVIN SIGN, the one code point outside ASCII whose lower-case
  form is an ASCII letter. It is applied to such names only; on other code points it is
  not Python's \<^verbatim>\<open>lower\<close>.
\<close>

definition lower_cp :: "nat \<Rightarrow> nat" where
  "lower_cp c = (if 65 \<le> c \<and> c \<le> 90 then c + 32 else if c = 8490 then 107 else c)"

definition lower_sample :: "str \<Rightarrow> str" where
  "lower_sample k = map lower_cp k"

text \<open>
  A spelling of the API-key header with U+212A KELVIN SIGN for its last \<open>K\<close>: Python
  lowers it to \<^verbatim>\<open>x-agentops-api-key\<close>.
\<close>

definition kelvin_api_key :: str where
  "kelvin_api_key = ascii ''X-AgentOps-Api-'' @ [8490] @ ascii ''ey''"

text \<open>\<^verbatim>\<open>proper_case.get(lower_k, k)\<close>: the key under which a header named \<open>k\<close> is stored.\<close>

definition proper_case_get :: "(str \<Rightarrow> str) \<Rightarrow> str \<Rightarrow> str" where
  "proper_case_get lower k = (case map_of proper_case (lower k) of Some p \<Rightarrow> p | None \<Rightarrow> k)"

text \<open>
  \<^verbatim>\<open>proper_case[name]\<close> with a literal name. The three names the code subscripts with
  are keys of the table (lemma \<open>proper_case_subscripts\<close>), so no \<^verbatim>\<open>KeyError\<close> arises.
\<close>

definition proper_case_at :: "str \<Rightarrow> str" where
  "proper_case_at name = the (map_of proper_case name)"

text \<open>
  A Python dict is an association list with distinct keys in insertion order;
  \<^verbatim>\<open>headers[key] = v\<close> is \<open>AList.update\<close>, which replaces the value of a key already
  present and appends a new key. The two \<^verbatim>\<open>for\<close> loops of \<^verbatim>\<open>_prepare_headers\<close> are
  \<open>merge_headers\<close>.
\<close>

fun merge_headers ::
  "(str \<Rightarrow> str) \<Rightarrow> (str \<times> string) list \<Rightarrow> (str \<times> string) list \<Rightarrow> (str \<times> string) list" where
  "merge_headers lower headers [] = headers"
| "merge_headers lower headers ((k, v) # rest) =
     merge_headers lower (AList.update (proper_case_get lower k) v headers) rest"

definition prepare_headers ::
  "(str \<Rightarrow> str) \<Rightarrow> string option \<Rightarrow> string option \<Rightarrow> string option
   \<Rightarrow> (str \<times> string) list option \<Rightarrow> (str \<times> string) list" where
  "prepare_headers lower api_key parent_key jwt custom_headers =
     (let headers = merge_headers lower [] JSON_HEADER;
          headers = (case api_key of
                       None \<Rightarrow> headers
                     | Some a \<Rightarrow>
                         AList.update (proper_case_at (ascii ''x-agentops-api-key'')) a headers);
          headers = (case parent_key of
                       None \<Rightarrow> headers
                     | Some p \<Rightarrow>
                         AList.update (proper_case_at (ascii ''x-agentops-parent-key'')) p headers);
          headers = (case jwt of
                       None \<Rightarrow> headers
                     | Some t \<Rightarrow>
                         AList.update (proper_case_at (ascii ''authorization'')) (''Bearer '' @ t)
                           headers)
      in case custom_headers of
           None \<Rightarrow> headers
         | Some custom \<Rightarrow> merge_headers lower headers custom)"

subsection \<open>POST and GET\<close>

text \<open>
  The \<^verbatim>\<open>try\<close> statement of \<^verbatim>\<open>post\<close> and of \<^verbatim>\<open>get\<close> (the two are the same text but for
  the session method called): what becomes of the outcome of the library call. A
  returned response is parsed inside the \<^verbatim>\<open>try\<close>, so a failure of \<^verbatim>\<open>res.json()\<close> meets
  the handlers too. In the \<^verbatim>\<open>HTTPError\<close> handler the attached response is parsed; any
  failure there (\<^verbatim>\<open>except Exception\<close>) leads to \<^verbatim>\<open>e.response.status_code\<close>, which raises
  an \<^verbatim>\<open>AttributeError\<close> when there is no response, and then to the raise. The assignments
  to the local \<^verbatim>\<open>result\<close> that precede a \<^verbatim>\<open>raise\<close> (code 408 and status TIMEOUT on a
  timeout, the error body elsewhere) are not kept: the local is lost with the raise.
\<close>

definition handle_outcome :: "transport_outcome \<Rightarrow> error + Response" where
  "handle_outcome out =
     (let result = Response_init in
      case out of
        Returned res \<Rightarrow>
          (case parse result res of
             Inr result' \<Rightarrow> Inr result'
           | Inl (JSONDecodeError m) \<Rightarrow> Inl (ApiServerException (''RequestException: '' @ m))
           | Inl (ValueError m) \<Rightarrow> Inl (Propagated m))
      | Raised_Timeout \<Rightarrow>
          Inl (ApiServerException ''Could not reach API server - connection timed out'')
      | Raised_HTTPError response m \<Rightarrow>
          (case response of
             None \<Rightarrow> Inl (Propagated ''AttributeError'')
           | Some res \<Rightarrow>
               (case parse result res of
                  Inr result' \<Rightarrow> Inr result'
                | Inl _ \<Rightarrow> Inl (ApiServerException (''HTTPError: '' @ m))))
      | Raised_RequestException m \<Rightarrow> Inl (ApiServerException (''RequestException: '' @ m))
      | Raised_other m \<Rightarrow> Inl (Propagated m))"

text \<open>The text of an optional string inside an f-string: \<^verbatim>\<open>None\<close> prints as its name.\<close>

definition str_opt :: "string option \<Rightarrow> string" where
  "str_opt x = (case x of None \<Rightarrow> ''None'' | Some t \<Rightarrow> t)"

text \<open>
  The branch for code 400, the same in \<^verbatim>\<open>post\<close> and \<^verbatim>\<open>get\<close>: the test
  \<^verbatim>\<open>"message" in result.body\<close>, then one of the two raises. Where the test or the
  subscript raises \<^verbatim>\<open>TypeError\<close>, that exception leaves the call uncaught.
\<close>

definition invalid_request_error :: "json_doc \<Rightarrow> error" where
  "invalid_request_error b =
     (case b of
        JObject members rendered \<Rightarrow>
          (case map_of members ''message'' of
             Some m \<Rightarrow> ApiServerException (''API server: '' @ m)
           | None \<Rightarrow> ApiServerException (''API server: '' @ rendered))
      | JSequence has_message rendered \<Rightarrow>
          if has_message then Propagated ''TypeError''
          else ApiServerException (''API server: '' @ rendered)
      | JScalar rendered \<Rightarrow> Propagated ''TypeError'')"

definition post_status_checks :: "Response \<Rightarrow> error + Response" where
  "post_status_checks result =
     (if code result = 401 then
        Inl (ApiServerException
          ''API server: invalid API key or JWT. Find your API key at https://app.agentops.ai/settings/projects'')
      else if code result = 400 then Inl (invalid_request_error (body result))
      else if code result = 500 then Inl (ApiServerException ''API server: internal server error'')
      else Inr result)"

definition get_status_checks :: "string option \<Rightarrow> Response \<Rightarrow> error + Response" where
  "get_status_checks api_key result =
     (if code result = 401 then
        Inl (ApiServerException
          (''API server: invalid API key: '' @ str_opt api_key @
           ''. Find your API key at https://app.agentops.ai/settings/projects''))
      else if code result = 400 then Inl (invalid_request_error (body result))
      else if code result = 500 then Inl (ApiServerException ''API server: internal server error'')
      else Inr result)"

text \<open>
  The library call is a parameter: it maps the session and the request to the outcome.
\<close>

type_synonym transport = "Session \<Rightarrow> request \<Rightarrow> transport_outcome"

definition post_request ::
  "(str \<Rightarrow> str) \<Rightarrow> string \<Rightarrow> string \<Rightarrow> string option \<Rightarrow> string option \<Rightarrow> string option
   \<Rightarrow> (str \<times> string) list option \<Rightarrow> request" where
  "post_request lower u payload api_key parent_key jwt header =
     \<lparr>req_method = POST, url = u, data = Some payload,
      req_headers = prepare_headers lower api_key parent_key jwt header, timeout = 20\<rparr>"

definition get_request ::
  "(str \<Rightarrow> str) \<Rightarrow> string \<Rightarrow> string option \<Rightarrow> string option
   \<Rightarrow> (str \<times> string) list option \<Rightarrow> request" where
  "get_request lower u api_key jwt header =
     \<lparr>req_method = GET, url = u, data = None,
      req_headers = prepare_headers lower api_key None jwt header, timeout = 20\<rparr>"

definition post ::
  "(str \<Rightarrow> str) \<Rightarrow> transport \<Rightarrow> string \<Rightarrow> string \<Rightarrow> string option \<Rightarrow> string option
   \<Rightarrow> string option \<Rightarrow> (str \<times> string) list option \<Rightarrow> client_state
   \<Rightarrow> (error + Response) \<times> client_state" where
  "post lower transport u payload api_key parent_key jwt header s =
     (let req = post_request lower u payload api_key parent_key jwt header;
          (sess, s1) = get_session s;
          s2 = s1\<lparr>sent := sent s1 @ [req]\<rparr>
      in (case handle_outcome (transport sess req) of
            Inl e \<Rightarrow> Inl e
          | Inr result \<Rightarrow> post_status_checks result,
          s2))"

definition get ::
  "(str \<Rightarrow> str) \<Rightarrow> transport \<Rightarrow> string \<Rightarrow> string option \<Rightarrow> string option
   \<Rightarrow> (str \<times> string) list option \<Rightarrow> client_state
   \<Rightarrow> (error + Response) \<times> client_state" where
  "get lower transport u api_key jwt header s =
     (let req = get_request lower u api_key jwt header;
          (sess, s1) = get_session s;
          s2 = s1\<lparr>sent := sent s1 @ [req]\<rparr>
      in (case handle_outcome (transport sess req) of
            Inl e \<Rightarrow> Inl e
          | Inr result \<Rightarrow> get_status_checks api_key result,
          s2))"

text \<open>The state of a fresh process: no session yet, nothing sent, an empty queue.\<close>

definition initial_state :: client_state where
  "initial_state = \<lparr>session = None, sent = [], dlq = []\<rparr>"

text \<open>
  The response that the \<^verbatim>\<open>try\<close> statement parses, if the outcome has one: the returned
  response, or the one attached to an \<^verbatim>\<open>HTTPError\<close>.
\<close>

definition response_of :: "transport_outcome \<Rightarrow> raw_response option" where
  "response_of out =
     (case out of
        Returned res \<Rightarrow> Some res
      | Raised_HTTPError response m \<Rightarrow> response
      | _ \<Rightarrow> None)"

subsection \<open>Fixtures of the tests\<close>

text \<open>
  The mocked response and the two queued descriptors of
  \<^verbatim>\<open>test_post_success_triggers_dlq_retry\<close> (src/tests/test\_http\_client.py).
\<close>

definition mock_response_success :: raw_response where
  "mock_response_success =
     \<lparr>status_code = 200,
      json = Inr (JObject [(''message'', ''Success'')] ''{'message': 'Success'}'')\<rparr>"

definition failed_request_1 :: descriptor where
  "failed_request_1 =
     \<lparr>d_method = POST, d_url = ''https://example.com/api1'',
      d_payload = Some ''{\"key\": \"value1\"}'', d_api_key = Some ''API_KEY_1'',
      d_parent_key = None, d_jwt = None, error_type = ''Timeout''\<rparr>"

definition failed_request_2 :: descriptor where
  "failed_request_2 =
     \<lparr>d_method = POST, d_url = ''https://example.com/api2'',
      d_payload = Some ''{\"key\": \"value2\"}'', d_api_key = Some ''API_KEY_2'',
      d_parent_key = None, d_jwt = None, error_type = ''Timeout''\<rparr>"

text \<open>
  The mocked response of \<^verbatim>\<open>test_post_http_error\<close> and \<^verbatim>\<open>test_get_http_error\<close>; the error
  that carries it is built without a message, so its text is empty.
\<close>

definition mock_response_error :: raw_response where
  "mock_response_error =
     \<lparr>status_code = 500,
      json = Inr (JObject [(''error'', ''Internal Server Error'')]
                    ''{'error': 'Internal Server Error'}'')\<rparr>"

section \<open>Properties\<close>

subsection \<open>One call, step by step\<close>

text \<open>
  What a call leaves in the state and what it answers, in terms of the outcome of the
  library call for the session and the request of this call.
\<close>

lemma get_session_frame:
  "sent (snd (get_session s)) = sent s" "dlq (snd (get_session s)) = dlq s"
  by (simp_all add: get_session_def split: option.splits)


lemma get_session_again:
  "get_session (snd (get_session s)) = get_session s"
  by (simp add: get_session_def split: option.splits)

lemma post_result:
  "fst (post L T u payload a pk j h s) =
     (case handle_outcome (T (fst (get_session s)) (post_request L u payload a pk j h)) of
        Inl e \<Rightarrow> Inl e
      | Inr result \<Rightarrow> post_status_checks result)"
  by (simp add: post_def Let_def split: prod.splits)

lemma post_state:
  "snd (post L T u payload a pk j h s) =
     (snd (get_session s))\<lparr>sent := sent s @ [post_request L u payload a pk j h]\<rparr>"
  by (simp add: post_def Let_def case_prod_beta get_session_frame)

lemma get_result:
  "fst (get L T u a j h s) =
     (case handle_outcome (T (fst (get_session s)) (get_request L u a j h)) of
        Inl e \<Rightarrow> Inl e
      | Inr result \<Rightarrow> get_status_checks a result)"
  by (simp add: get_def Let_def split: prod.splits)

lemma get_state:
  "snd (get L T u a j h s) =
     (snd (get_session s))\<lparr>sent := sent s @ [get_request L u a j h]\<rparr>"
  by (simp add: get_def Let_def case_prod_beta get_session_frame)

lemma handle_outcome_parsed:
  "response_of out = Some res \<Longrightarrow> json res = Inr b \<Longrightarrow>
   handle_outcome out =
     Inr \<lparr>status = get_status (status_code res), code = status_code res, body = b\<rparr>"
  by (auto simp: response_of_def handle_outcome_def parse_def Response_init_def
      split: transport_outcome.splits)

lemma handle_outcome_Inr:
  "handle_outcome out = Inr r \<Longrightarrow>
   \<exists>res. response_of out = Some res \<and> parse Response_init res = Inr r"
  by (auto simp: response_of_def handle_outcome_def
      split: transport_outcome.splits sum.splits json_failure.splits option.splits)

lemma post_dlq: "dlq (snd (post L T u payload a pk j h s)) = dlq s"
  by (simp add: post_state get_session_frame)

lemma get_dlq: "dlq (snd (get L T u a j h s)) = dlq s"
  by (simp add: get_state get_session_frame)

lemma checks_pass:
  "code r \<notin> {400, 401, 500} \<Longrightarrow> post_status_checks r = Inr r"
  "code r \<notin> {400, 401, 500} \<Longrightarrow> get_status_checks a r = Inr r"
  by (simp_all add: post_status_checks_def get_status_checks_def)

lemma checks_raise:
  "code r \<in> {400, 401, 500} \<Longrightarrow> \<exists>e. post_status_checks r = Inl e"
  "code r \<in> {400, 401, 500} \<Longrightarrow> \<exists>e. get_status_checks a r = Inl e"
  by (auto simp: post_status_checks_def get_status_checks_def)

lemma parse_Inr:
  "parse self res = Inr r \<Longrightarrow>
   status r = get_status (code r) \<and> code r = status_code res \<and> json res = Inr (body r)"
  by (auto simp: parse_def split: sum.splits)

lemma post_checks_Inr: "post_status_checks r0 = Inr r \<Longrightarrow> r = r0"
  by (auto simp: post_status_checks_def split: if_splits)

lemma get_checks_Inr: "get_status_checks a r0 = Inr r \<Longrightarrow> r = r0"
  by (auto simp: get_status_checks_def split: if_splits)

lemma post_Inr:
  "fst (post L T u payload a pk j h s) = Inr r \<Longrightarrow>
   handle_outcome (T (fst (get_session s)) (post_request L u payload a pk j h)) = Inr r"
  by (auto simp: post_result split: sum.splits dest: post_checks_Inr)

lemma get_Inr:
  "fst (get L T u a j h s) = Inr r \<Longrightarrow>
   handle_outcome (T (fst (get_session s)) (get_request L u a j h)) = Inr r"
  by (auto simp: get_result split: sum.splits dest: get_checks_Inr)




lemma post_sent: "sent (snd (post L T u payload a pk j h s)) = sent s @ [post_request L u payload a pk j h]"
  by (simp add: post_state)

lemma get_sent: "sent (snd (get L T u a j h s)) = sent s @ [get_request L u a j h]"
  by (simp add: get_state)

lemma handle_outcome_HTTPError:
  "handle_outcome (Raised_HTTPError (Some res) m) =
     (case json res of
        Inl e \<Rightarrow> Inl (ApiServerException (''HTTPError: '' @ m))
      | Inr b \<Rightarrow> Inr \<lparr>status = get_status (status_code res), code = status_code res, body = b\<rparr>)"
  by (simp add: handle_outcome_def parse_def Response_init_def split: sum.splits)

lemma checks_server_error:
  "500 \<le> code r \<Longrightarrow> post_status_checks r =
     (if code r = 500 then Inl (ApiServerException ''API server: internal server error'') else Inr r)"
  "500 \<le> code r \<Longrightarrow> get_status_checks a r =
     (if code r = 500 then Inl (ApiServerException ''API server: internal server error'') else Inr r)"
  by (simp_all add: post_status_checks_def get_status_checks_def)

subsection \<open>Header composition, step by step\<close>

text \<open>
  Facts about the table and the two loops: names written in ASCII are equal when their
  texts are, storing is idempotent, and a loop lets the later entry win.
\<close>

lemma ascii_eq_iff: "ascii t = ascii t' \<longleftrightarrow> t = t'"
proof -
  have "inj (of_char :: char \<Rightarrow> nat)"
    by (rule injI) simp
  then show ?thesis
    by (simp add: ascii_def inj_map_eq_map)
qed

lemma lower_proper: "lowers_proper_case L \<Longrightarrow> map_of proper_case l = Some p \<Longrightarrow> L p = l"
  by (auto simp: lowers_proper_case_def dest: map_of_SomeD)

lemma lowers_proper_caseD:
  assumes "lowers_proper_case L"
  shows "L (ascii ''Content-Type'') = ascii ''content-type''"
    and "L (ascii ''Accept'') = ascii ''accept''"
    and "L (ascii ''X-AgentOps-Api-Key'') = ascii ''x-agentops-api-key''"
    and "L (ascii ''X-AgentOps-Parent-Key'') = ascii ''x-agentops-parent-key''"
    and "L (ascii ''Authorization'') = ascii ''authorization''"
  using assms by (simp_all add: lowers_proper_case_def proper_case_def)

lemma proper_case_lookup:
  "map_of proper_case (ascii ''content-type'') = Some (ascii ''Content-Type'')"
  "map_of proper_case (ascii ''accept'') = Some (ascii ''Accept'')"
  "map_of proper_case (ascii ''x-agentops-api-key'') = Some (ascii ''X-AgentOps-Api-Key'')"
  "map_of proper_case (ascii ''x-agentops-parent-key'') = Some (ascii ''X-AgentOps-Parent-Key'')"
  "map_of proper_case (ascii ''authorization'') = Some (ascii ''Authorization'')"
  by (simp_all add: proper_case_def ascii_eq_iff)

lemma proper_case_subscripts:
  "proper_case_at (ascii ''x-agentops-api-key'') = ascii ''X-AgentOps-Api-Key''"
  "proper_case_at (ascii ''x-agentops-parent-key'') = ascii ''X-AgentOps-Parent-Key''"
  "proper_case_at (ascii ''authorization'') = ascii ''Authorization''"
  by (simp_all add: proper_case_at_def proper_case_lookup)

lemma proper_case_get_idem:
  assumes "lowers_proper_case L"
  shows "proper_case_get L (proper_case_get L k) = proper_case_get L k"
proof (cases "map_of proper_case (L k)")
  case None
  then show ?thesis by (simp add: proper_case_get_def)
next
  case (Some p)
  then have "proper_case_get L k = p" "L p = L k"
    using assms by (simp_all add: proper_case_get_def lower_proper)
  with Some show ?thesis by (simp add: proper_case_get_def)
qed

lemma merge_headers_keys:
  "fst ` set (merge_headers L hs kvs) = fst ` set hs \<union> proper_case_get L ` fst ` set kvs"
  by (induction L hs kvs rule: merge_headers.induct) (auto simp: AList.dom_update)

lemma merge_headers_distinct:
  "distinct (map fst hs) \<Longrightarrow> distinct (map fst (merge_headers L hs kvs))"
  by (induction L hs kvs rule: merge_headers.induct) (auto simp: AList.distinct_update)

lemma merge_headers_map_of:
  "map_of (merge_headers L hs kvs) =
     map_of hs ++ map_of (rev (map (\<lambda>(k, v). (proper_case_get L k, v)) kvs))"
proof (induction L hs kvs rule: merge_headers.induct)
  case (1 L hs)
  then show ?case by simp
next
  case (2 L hs k v rest)
  show ?case
    by (simp add: 2 AList.update_conv' map_add_def fun_eq_iff split: option.splits)
qed

lemma proper_names_fixed:
  assumes "lowers_proper_case L"
  shows "proper_case_get L (ascii ''Content-Type'') = ascii ''Content-Type''"
    and "proper_case_get L (ascii ''Accept'') = ascii ''Accept''"
    and "proper_case_get L (ascii ''X-AgentOps-Api-Key'') = ascii ''X-AgentOps-Api-Key''"
    and "proper_case_get L (ascii ''X-AgentOps-Parent-Key'') = ascii ''X-AgentOps-Parent-Key''"
    and "proper_case_get L (ascii ''Authorization'') = ascii ''Authorization''"
  by (simp_all add: proper_case_get_def lowers_proper_caseD [OF assms] proper_case_lookup)

lemma prepare_headers_base:
  assumes "lowers_proper_case L"
  shows "prepare_headers L a p j None =
     [(ascii ''Content-Type'', ''application/json; charset=UTF-8''), (ascii ''Accept'', ''*/*'')] @
     (case a of None \<Rightarrow> [] | Some x \<Rightarrow> [(ascii ''X-AgentOps-Api-Key'', x)]) @
     (case p of None \<Rightarrow> [] | Some x \<Rightarrow> [(ascii ''X-AgentOps-Parent-Key'', x)]) @
     (case j of None \<Rightarrow> [] | Some t \<Rightarrow> [(ascii ''Authorization'', ''Bearer '' @ t)])"
  by (simp add: prepare_headers_def JSON_HEADER_def proper_names_fixed [OF assms]
      proper_case_subscripts ascii_eq_iff split: option.splits)

lemma prepare_headers_custom:
  "prepare_headers L a p j (Some custom) = merge_headers L (prepare_headers L a p j None) custom"
  by (simp add: prepare_headers_def Let_def)

lemma base_keys:
  assumes "lowers_proper_case L"
  shows "fst ` set (prepare_headers L a p j None) \<subseteq>
     {ascii ''Content-Type'', ascii ''Accept'', ascii ''X-AgentOps-Api-Key'',
      ascii ''X-AgentOps-Parent-Key'', ascii ''Authorization''}"
  unfolding prepare_headers_base [OF assms] by (cases a; cases p; cases j) simp_all

lemma base_keys_fixed:
  assumes "lowers_proper_case L" and "n \<in> fst ` set (prepare_headers L a p j None)"
  shows "proper_case_get L n = n"
proof -
  from assms(2) base_keys [OF assms(1)]
  have "n \<in> {ascii ''Content-Type'', ascii ''Accept'', ascii ''X-AgentOps-Api-Key'',
      ascii ''X-AgentOps-Parent-Key'', ascii ''Authorization''}"
    by blast
  then show ?thesis using proper_names_fixed [OF assms(1)] by blast
qed

lemma base_distinct:
  "lowers_proper_case L \<Longrightarrow> distinct (map fst (prepare_headers L a p j None))"
  by (simp add: prepare_headers_base ascii_eq_iff split: option.splits)

lemma keys_fixed:
  assumes "lowers_proper_case L"
    and "n \<in> fst ` set (prepare_headers L a p j (Some custom))"
  shows "proper_case_get L n = n"
proof -
  from assms(2) have "n \<in> fst ` set (prepare_headers L a p j None) \<or>
      n \<in> proper_case_get L ` fst ` set custom"
    by (simp add: prepare_headers_custom merge_headers_keys)
  then show ?thesis
  proof
    assume "n \<in> fst ` set (prepare_headers L a p j None)"
    with assms(1) show ?thesis by (rule base_keys_fixed)
  next
    assume "n \<in> proper_case_get L ` fst ` set custom"
    then obtain k where "n = proper_case_get L k" by blast
    then show ?thesis by (simp add: proper_case_get_idem [OF assms(1)])
  qed
qed

lemma keys_collapse:
  assumes "lowers_proper_case L"
    and "n1 \<in> fst ` set (prepare_headers L a p j (Some custom))"
    and "n2 \<in> fst ` set (prepare_headers L a p j (Some custom))"
    and "L n1 = L n2" and "L n1 \<in> fst ` set proper_case"
  shows "n1 = n2"
proof -
  from assms(5) obtain q where q: "map_of proper_case (L n1) = Some q"
    by (metis domD dom_map_of_conv_image_fst)
  have "proper_case_get L n1 = q" "proper_case_get L n2 = q"
    using q assms(4) by (simp_all add: proper_case_get_def)
  with keys_fixed [OF assms(1,2)] keys_fixed [OF assms(1,3)] show ?thesis by simp
qed

lemma lower_sample_proper: "lowers_proper_case lower_sample"
  by (simp add: lowers_proper_case_def proper_case_def lower_sample_def lower_cp_def ascii_def)

subsection \<open>The status classifier\<close>

text \<open>
  C4. The classifier is a total function of the integer status code alone: every code
  from 200 to 299 is SUCCESS, 429 is TOO\_MANY\_REQUESTS, 413 is PAYLOAD\_TOO\_LARGE, 408
  is TIMEOUT, 401 is INVALID\_API\_KEY, every other code from 400 to 499 is
  INVALID\_REQUEST, every code from 500 on is FAILED, and every remaining integer (below
  200, negative ones included, or from 300 to 399) is UNKNOWN. The four special codes
  lie inside 400..499 and still get their own category, so they take precedence over
  the generic bucket.
\<close>

theorem get_status_classification:
  "(200 \<le> c \<and> c \<le> 299 \<longrightarrow> get_status c = SUCCESS) \<and>
   get_status 429 = TOO_MANY_REQUESTS \<and>
   get_status 413 = PAYLOAD_TOO_LARGE \<and>
   get_status 408 = TIMEOUT \<and>
   get_status 401 = INVALID_API_KEY \<and>
   (400 \<le> c \<and> c \<le> 499 \<and> c \<notin> {401, 408, 413, 429} \<longrightarrow> get_status c = INVALID_REQUEST) \<and>
   (500 \<le> c \<longrightarrow> get_status c = FAILED) \<and>
   (c < 200 \<or> (300 \<le> c \<and> c \<le> 399) \<longrightarrow> get_status c = UNKNOWN)"
  by (simp add: get_status_def)

theorem get_status_classification_witness:
  "get_status 200 = SUCCESS \<and> get_status 299 = SUCCESS \<and>
   get_status 404 = INVALID_REQUEST \<and> get_status 500 = FAILED \<and>
   get_status 503 = FAILED \<and> get_status (- 1) = UNKNOWN \<and> get_status 302 = UNKNOWN"
  using get_status_classification [of 200] get_status_classification [of 299]
    get_status_classification [of 404] get_status_classification [of 500]
    get_status_classification [of 503] get_status_classification [of "- 1"]
    get_status_classification [of 302]
  by simp

subsection \<open>Which parsed responses raise\<close>

text \<open>
  C8. Once a response has been parsed (the returned one, or the one attached to a
  protocol error, with a body that parses), \<^verbatim>\<open>post\<close> and \<^verbatim>\<open>get\<close> raise exactly when its
  code is 400, 401 or 500. With any other code, for instance 404, 408, 413 or 429 on
  the success path or 502 or 503 attached to a protocol error, the call returns the
  Response classified from that code, and outside 200..299 its status is not SUCCESS.
\<close>

theorem returned_unless_400_401_500:
  "(response_of (T (fst (get_session s)) (post_request L u payload a pk j h)) = Some res \<and>
    json res = Inr b \<and> status_code res \<notin> {400, 401, 500} \<longrightarrow>
      fst (post L T u payload a pk j h s) =
        Inr \<lparr>status = get_status (status_code res), code = status_code res, body = b\<rparr>) \<and>
   (response_of (T (fst (get_session s)) (get_request L u a j h)) = Some res \<and>
    json res = Inr b \<and> status_code res \<notin> {400, 401, 500} \<longrightarrow>
      fst (get L T u a j h s) =
        Inr \<lparr>status = get_status (status_code res), code = status_code res, body = b\<rparr>) \<and>
   (response_of (T (fst (get_session s)) (post_request L u payload a pk j h)) = Some res \<and>
    json res = Inr b \<and> status_code res \<in> {400, 401, 500} \<longrightarrow>
      (\<exists>e. fst (post L T u payload a pk j h s) = Inl e)) \<and>
   (response_of (T (fst (get_session s)) (get_request L u a j h)) = Some res \<and>
    json res = Inr b \<and> status_code res \<in> {400, 401, 500} \<longrightarrow>
      (\<exists>e. fst (get L T u a j h s) = Inl e)) \<and>
   (\<not> (200 \<le> status_code res \<and> status_code res \<le> 299) \<longrightarrow>
      get_status (status_code res) \<noteq> SUCCESS)"
proof -
  let ?r = "\<lparr>status = get_status (status_code res), code = status_code res, body = b\<rparr>"
  have 1: "fst (post L T u payload a pk j h s) = Inr ?r"
    if "response_of (T (fst (get_session s)) (post_request L u payload a pk j h)) = Some res"
      "json res = Inr b" "status_code res \<notin> {400, 401, 500}"
    using that checks_pass(1) [of ?r] by (simp add: post_result handle_outcome_parsed)
  have 2: "fst (get L T u a j h s) = Inr ?r"
    if "response_of (T (fst (get_session s)) (get_request L u a j h)) = Some res"
      "json res = Inr b" "status_code res \<notin> {400, 401, 500}"
    using that checks_pass(2) [of ?r a] by (simp add: get_result handle_outcome_parsed)
  have 3: "\<exists>e. fst (post L T u payload a pk j h s) = Inl e"
    if "response_of (T (fst (get_session s)) (post_request L u payload a pk j h)) = Some res"
      "json res = Inr b" "status_code res \<in> {400, 401, 500}"
    using that checks_raise(1) [of ?r] by (simp add: post_result handle_outcome_parsed)
  have 4: "\<exists>e. fst (get L T u a j h s) = Inl e"
    if "response_of (T (fst (get_session s)) (get_request L u a j h)) = Some res"
      "json res = Inr b" "status_code res \<in> {400, 401, 500}"
    using that checks_raise(2) [of ?r a] by (simp add: get_result handle_outcome_parsed)
  have 5: "\<not> (200 \<le> status_code res \<and> status_code res \<le> 299) \<longrightarrow>
            get_status (status_code res) \<noteq> SUCCESS"
    by (simp add: get_status_def)
  from 1 2 3 4 5 show ?thesis by blast
qed

theorem returned_unless_400_401_500_witness:
  "fst (post lower_sample (\<lambda>sess req. Returned \<lparr>status_code = 404, json = Inr empty_doc\<rparr>)
          ''https://example.com/api'' ''{}'' None None None None initial_state) =
     Inr \<lparr>status = INVALID_REQUEST, code = 404, body = empty_doc\<rparr> \<and>
   fst (get lower_sample (\<lambda>sess req. Raised_HTTPError (Some \<lparr>status_code = 503, json = Inr empty_doc\<rparr>)
               ''503 Server Error'')
          ''https://example.com/api'' None None None initial_state) =
     Inr \<lparr>status = FAILED, code = 503, body = empty_doc\<rparr> \<and>
   (\<exists>e. fst (post lower_sample (\<lambda>sess req. Returned \<lparr>status_code = 500, json = Inr empty_doc\<rparr>)
          ''https://example.com/api'' ''{}'' None None None None initial_state) = Inl e)"
  using
    returned_unless_400_401_500 [of "\<lambda>sess req. Returned \<lparr>status_code = 404, json = Inr empty_doc\<rparr>"
      initial_state lower_sample "''https://example.com/api''" "''{}''" None None None None
      "\<lparr>status_code = 404, json = Inr empty_doc\<rparr>" empty_doc]
    returned_unless_400_401_500 [of
      "\<lambda>sess req. Raised_HTTPError (Some \<lparr>status_code = 503, json = Inr empty_doc\<rparr>) ''503 Server Error''"
      initial_state lower_sample "''https://example.com/api''" "''{}''" None None None None
      "\<lparr>status_code = 503, json = Inr empty_doc\<rparr>" empty_doc]
    returned_unless_400_401_500 [of "\<lambda>sess req. Returned \<lparr>status_code = 500, json = Inr empty_doc\<rparr>"
      initial_state lower_sample "''https://example.com/api''" "''{}''" None None None None
      "\<lparr>status_code = 500, json = Inr empty_doc\<rparr>" empty_doc]
  by (simp add: response_of_def get_status_def)

subsection \<open>The Response a call returns\<close>

text \<open>
  C10. Every Response that \<^verbatim>\<open>post\<close> or \<^verbatim>\<open>get\<close> returns is the result of one \<^verbatim>\<open>parse\<close> of the
  response the library produced (returned, or attached to a protocol error), handed on
  as \<^verbatim>\<open>parse\<close> left it: its code is that response's status code, its body is that
  response's parsed document, and its status is \<open>get_status\<close> of its code. \<^verbatim>\<open>parse\<close>
  sets the three fields together.
\<close>

theorem returned_response_consistent:
  "(fst (post L T u payload a pk j h s) = Inr r \<longrightarrow>
      status r = get_status (code r) \<and>
      (\<exists>res. response_of (T (fst (get_session s)) (post_request L u payload a pk j h)) = Some res \<and>
             parse Response_init res = Inr r \<and>
             code r = status_code res \<and> json res = Inr (body r))) \<and>
   (fst (get L T u a j h s) = Inr r \<longrightarrow>
      status r = get_status (code r) \<and>
      (\<exists>res. response_of (T (fst (get_session s)) (get_request L u a j h)) = Some res \<and>
             parse Response_init res = Inr r \<and>
             code r = status_code res \<and> json res = Inr (body r))) \<and>
   (parse self res0 = Inr r \<longrightarrow>
      status r = get_status (code r) \<and> code r = status_code res0 \<and> json res0 = Inr (body r))"
proof -
  have 1: "status r = get_status (code r) \<and>
      (\<exists>res. response_of (T (fst (get_session s)) (post_request L u payload a pk j h)) = Some res \<and>
             parse Response_init res = Inr r \<and>
             code r = status_code res \<and> json res = Inr (body r))"
    if "fst (post L T u payload a pk j h s) = Inr r"
  proof -
    from that obtain res
      where "response_of (T (fst (get_session s)) (post_request L u payload a pk j h)) = Some res"
        and "parse Response_init res = Inr r"
      using post_Inr handle_outcome_Inr by blast
    then show ?thesis using parse_Inr by blast
  qed
  have 2: "status r = get_status (code r) \<and>
      (\<exists>res. response_of (T (fst (get_session s)) (get_request L u a j h)) = Some res \<and>
             parse Response_init res = Inr r \<and>
             code r = status_code res \<and> json res = Inr (body r))"
    if "fst (get L T u a j h s) = Inr r"
  proof -
    from that obtain res
      where "response_of (T (fst (get_session s)) (get_request L u a j h)) = Some res"
        and "parse Response_init res = Inr r"
      using get_Inr handle_outcome_Inr by blast
    then show ?thesis using parse_Inr by blast
  qed
  from 1 2 parse_Inr [of self res0 r] show ?thesis by blast
qed

theorem returned_response_consistent_witness:
  "fst (post lower_sample (\<lambda>sess req. Returned \<lparr>status_code = 429, json = Inr empty_doc\<rparr>)
          ''https://example.com/api'' ''{}'' None None None None initial_state) =
     Inr \<lparr>status = TOO_MANY_REQUESTS, code = 429, body = empty_doc\<rparr> \<and>
   status \<lparr>status = TOO_MANY_REQUESTS, code = 429, body = empty_doc\<rparr> = get_status 429 \<and>
   (\<exists>res. response_of (Returned \<lparr>status_code = 429, json = Inr empty_doc\<rparr>) = Some res \<and>
      status_code res = 429 \<and> json res = Inr empty_doc)"
proof -
  let ?T = "\<lambda>sess req. Returned \<lparr>status_code = 429, json = Inr empty_doc\<rparr>"
  let ?r = "\<lparr>status = TOO_MANY_REQUESTS, code = 429, body = empty_doc\<rparr>"
  have h: "fst (post lower_sample ?T ''https://example.com/api'' ''{}'' None None None None initial_state) = Inr ?r"
    by (simp add: post_result handle_outcome_def parse_def Response_init_def get_status_def
        post_status_checks_def)
  from returned_response_consistent [of lower_sample ?T "''https://example.com/api''" "''{}''" None None None None
      initial_state ?r Response_init "\<lparr>status_code = 429, json = Inr empty_doc\<rparr>"] h
  show ?thesis by auto
qed

subsection \<open>The message for an invalid API key\<close>




subsection \<open>The dead-letter queue\<close>

text \<open>
  C1. The claim: after a \<^verbatim>\<open>post\<close> or \<^verbatim>\<open>get\<close> that completes with SUCCESS the queue is
  drained before the result is returned; every queued descriptor is reissued in enqueue
  order, and one whose replay succeeds leaves the queue. The tests assert the same
  (\<^verbatim>\<open>test_post_success_triggers_dlq_retry\<close> expects an empty queue). The code has no
  drain: at the input of that test, with two descriptors queued and a library that
  answers every request with 200, \<^verbatim>\<open>post\<close> returns the SUCCESS Response, hands exactly one
  request to the library (its own) and leaves both descriptors queued. For every input
  a call leaves the queue as it was and hands the library one request.
\<close>

theorem post_success_does_not_drain:
  "post L (\<lambda>sess req. Returned mock_response_success)
        ''https://example.com/api'' ''{\"key\": \"value\"}'' None None None None
        \<lparr>session = None, sent = [], dlq = [failed_request_1, failed_request_2]\<rparr> =
     (Inr \<lparr>status = SUCCESS, code = 200,
           body = JObject [(''message'', ''Success'')] ''{'message': 'Success'}''\<rparr>,
      \<lparr>session = Some new_session,
       sent = [post_request L ''https://example.com/api'' ''{\"key\": \"value\"}'' None None None None],
       dlq = [failed_request_1, failed_request_2]\<rparr>) \<and>
   dlq (snd (post L T u payload a pk j h s)) = dlq s \<and>
   sent (snd (post L T u payload a pk j h s)) = sent s @ [post_request L u payload a pk j h] \<and>
   dlq (snd (get L T u a j h s)) = dlq s \<and>
   sent (snd (get L T u a j h s)) = sent s @ [get_request L u a j h]"
proof -
  have "post L (\<lambda>sess req. Returned mock_response_success)
        ''https://example.com/api'' ''{\"key\": \"value\"}'' None None None None
        \<lparr>session = None, sent = [], dlq = [failed_request_1, failed_request_2]\<rparr> =
     (Inr \<lparr>status = SUCCESS, code = 200,
           body = JObject [(''message'', ''Success'')] ''{'message': 'Success'}''\<rparr>,
      \<lparr>session = Some new_session,
       sent = [post_request L ''https://example.com/api'' ''{\"key\": \"value\"}'' None None None None],
       dlq = [failed_request_1, failed_request_2]\<rparr>)"
    by (simp add: post_def get_session_def handle_outcome_def parse_def Response_init_def
        mock_response_success_def get_status_def post_status_checks_def)
  then show ?thesis
    by (simp only: post_dlq post_sent get_dlq get_sent simp_thms)
qed

text \<open>
  C2. The claim: a call whose library call times out raises the server-unreachable
  error and adds exactly one descriptor with error type \<^verbatim>\<open>Timeout\<close> to the queue. The
  tests assert one queued descriptor (\<^verbatim>\<open>test_post_timeout\<close>, \<^verbatim>\<open>test_get_timeout\<close>). The code
  raises the error and enqueues nothing: from the fresh state of those tests, the queue
  is still empty after \<^verbatim>\<open>post\<close> and after \<^verbatim>\<open>get\<close>, and from any state the queue
  is the same after the call as before.
\<close>

theorem timeout_not_enqueued:
  "post L (\<lambda>sess req. Raised_Timeout)
        ''https://example.com/api'' ''{\"key\": \"value\"}'' None None None None initial_state =
     (Inl (ApiServerException ''Could not reach API server - connection timed out''),
      \<lparr>session = Some new_session,
       sent = [post_request L ''https://example.com/api'' ''{\"key\": \"value\"}'' None None None None],
       dlq = []\<rparr>) \<and>
   get L (\<lambda>sess req. Raised_Timeout) ''https://example.com/api'' None None None initial_state =
     (Inl (ApiServerException ''Could not reach API server - connection timed out''),
      \<lparr>session = Some new_session,
       sent = [get_request L ''https://example.com/api'' None None None],
       dlq = []\<rparr>) \<and>
   fst (post L (\<lambda>sess req. Raised_Timeout) u payload a pk j h s) =
     Inl (ApiServerException ''Could not reach API server - connection timed out'') \<and>
   dlq (snd (post L (\<lambda>sess req. Raised_Timeout) u payload a pk j h s)) = dlq s \<and>
   fst (get L (\<lambda>sess req. Raised_Timeout) u a j h s) =
     Inl (ApiServerException ''Could not reach API server - connection timed out'') \<and>
   dlq (snd (get L (\<lambda>sess req. Raised_Timeout) u a j h s)) = dlq s"
proof -
  have 1: "post L (\<lambda>sess req. Raised_Timeout)
        ''https://example.com/api'' ''{\"key\": \"value\"}'' None None None None initial_state =
     (Inl (ApiServerException ''Could not reach API server - connection timed out''),
      \<lparr>session = Some new_session,
       sent = [post_request L ''https://example.com/api'' ''{\"key\": \"value\"}'' None None None None],
       dlq = []\<rparr>)"
    by (simp add: post_def get_session_def handle_outcome_def initial_state_def)
  have 2: "get L (\<lambda>sess req. Raised_Timeout) ''https://example.com/api'' None None None initial_state =
     (Inl (ApiServerException ''Could not reach API server - connection timed out''),
      \<lparr>session = Some new_session,
       sent = [get_request L ''https://example.com/api'' None None None],
       dlq = []\<rparr>)"
    by (simp add: get_def get_session_def handle_outcome_def initial_state_def)
  have 3: "fst (post L (\<lambda>sess req. Raised_Timeout) u payload a pk j h s) =
     Inl (ApiServerException ''Could not reach API server - connection timed out'')"
    by (simp add: post_result handle_outcome_def)
  have 4: "fst (get L (\<lambda>sess req. Raised_Timeout) u a j h s) =
     Inl (ApiServerException ''Could not reach API server - connection timed out'')"
    by (simp add: get_result handle_outcome_def)
  show ?thesis
    by (rule conjI 1 2 3 4 post_dlq get_dlq)+
qed

text \<open>
  C6 (amended). For every \<^verbatim>\<open>post\<close> or \<^verbatim>\<open>get\<close> whose response (returned, or attached to a
  protocol error) has a status code from 200 to 299 and a body that parses as JSON, the
  call returns the Response with status SUCCESS, that code and the parsed body, and the
  queue is the same after the call as before: nothing is enqueued. As the claim is
  written, without the condition on the body, it fails: a 204 response with an empty
  body makes \<^verbatim>\<open>res.json()\<close> raise inside the \<^verbatim>\<open>try\<close>, and the call raises.
\<close>

theorem success_returned_dlq_unchanged:
  "(response_of (T (fst (get_session s)) (post_request L u payload a pk j h)) = Some res \<and>
    json res = Inr b \<and> 200 \<le> status_code res \<and> status_code res \<le> 299 \<longrightarrow>
      fst (post L T u payload a pk j h s) =
        Inr \<lparr>status = SUCCESS, code = status_code res, body = b\<rparr> \<and>
      dlq (snd (post L T u payload a pk j h s)) = dlq s) \<and>
   (response_of (T (fst (get_session s)) (get_request L u a j h)) = Some res \<and>
    json res = Inr b \<and> 200 \<le> status_code res \<and> status_code res \<le> 299 \<longrightarrow>
      fst (get L T u a j h s) =
        Inr \<lparr>status = SUCCESS, code = status_code res, body = b\<rparr> \<and>
      dlq (snd (get L T u a j h s)) = dlq s)"
proof -
  let ?r = "\<lparr>status = get_status (status_code res), code = status_code res, body = b\<rparr>"
  have s: "get_status (status_code res) = SUCCESS"
    if "200 \<le> status_code res" "status_code res \<le> 299"
    using that by (simp add: get_status_def)
  have 1: "fst (post L T u payload a pk j h s) =
        Inr \<lparr>status = SUCCESS, code = status_code res, body = b\<rparr>"
    if "response_of (T (fst (get_session s)) (post_request L u payload a pk j h)) = Some res"
      "json res = Inr b" "200 \<le> status_code res" "status_code res \<le> 299"
    using that checks_pass(1) [of ?r] s
    by (simp add: post_result handle_outcome_parsed)
  have 2: "fst (get L T u a j h s) =
        Inr \<lparr>status = SUCCESS, code = status_code res, body = b\<rparr>"
    if "response_of (T (fst (get_session s)) (get_request L u a j h)) = Some res"
      "json res = Inr b" "200 \<le> status_code res" "status_code res \<le> 299"
    using that checks_pass(2) [of ?r a] s
    by (simp add: get_result handle_outcome_parsed)
  from 1 2 show ?thesis by (simp add: post_dlq get_dlq)
qed

theorem success_returned_dlq_unchanged_witness:
  "fst (post lower_sample (\<lambda>sess req. Returned mock_response_success)
          ''https://example.com/api'' ''{\"key\": \"value\"}'' None None None None initial_state) =
     Inr \<lparr>status = SUCCESS, code = 200,
          body = JObject [(''message'', ''Success'')] ''{'message': 'Success'}''\<rparr> \<and>
   dlq (snd (post lower_sample (\<lambda>sess req. Returned mock_response_success)
          ''https://example.com/api'' ''{\"key\": \"value\"}'' None None None None initial_state)) = [] \<and>
   fst (get lower_sample (\<lambda>sess req. Returned mock_response_success)
          ''https://example.com/api'' None None None initial_state) =
     Inr \<lparr>status = SUCCESS, code = 200,
          body = JObject [(''message'', ''Success'')] ''{'message': 'Success'}''\<rparr>"
  using success_returned_dlq_unchanged [of "\<lambda>sess req. Returned mock_response_success" initial_state
      lower_sample "''https://example.com/api''" "''{\"key\": \"value\"}''" None None None None
      mock_response_success
      "JObject [(''message'', ''Success'')] ''{'message': 'Success'}''"]
  by (simp add: response_of_def mock_response_success_def initial_state_def)

theorem success_without_json_counterexample:
  "fst (post lower_sample (\<lambda>sess req. Returned
               \<lparr>status_code = 204,
                json = Inl (JSONDecodeError ''Expecting value: line 1 column 1 (char 0)'')\<rparr>)
          ''https://example.com/api'' ''{\"key\": \"value\"}'' None None None None initial_state) =
     Inl (ApiServerException ''RequestException: Expecting value: line 1 column 1 (char 0)'')"
  by (simp add: post_result handle_outcome_def parse_def)

subsection \<open>The shared session and the timeout\<close>



subsection \<open>Protocol errors with a server error\<close>

text \<open>
  C3. The claim: when the library raises a protocol error that carries a response with
  status 500 or more, the call fails with an error and exactly one descriptor with error
  type \<^verbatim>\<open>ServerError\<close> is added to the queue; a 401 raises the authentication error and
  adds none. The tests assert the descriptor (\<^verbatim>\<open>test_post_http_error\<close>,
  \<^verbatim>\<open>test_get_http_error\<close>). The code raises and enqueues nothing: at the input of those
  tests, a protocol error carrying a 500 whose body parses, \<^verbatim>\<open>post\<close> and \<^verbatim>\<open>get\<close> raise the
  internal server error and the queue is still empty; and whatever protocol error the
  library raises, from any state, the queue is the same after the call as before.
\<close>

theorem server_error_not_enqueued:
  "post L (\<lambda>sess req. Raised_HTTPError (Some mock_response_error) [])
        ''https://example.com/api'' ''{\"key\": \"value\"}'' None None None None initial_state =
     (Inl (ApiServerException ''API server: internal server error''),
      \<lparr>session = Some new_session,
       sent = [post_request L ''https://example.com/api'' ''{\"key\": \"value\"}'' None None None None],
       dlq = []\<rparr>) \<and>
   get L (\<lambda>sess req. Raised_HTTPError (Some mock_response_error) [])
        ''https://example.com/api'' None None None initial_state =
     (Inl (ApiServerException ''API server: internal server error''),
      \<lparr>session = Some new_session,
       sent = [get_request L ''https://example.com/api'' None None None],
       dlq = []\<rparr>) \<and>
   dlq (snd (post L (\<lambda>sess req. Raised_HTTPError response m) u payload a pk j h s)) = dlq s \<and>
   dlq (snd (get L (\<lambda>sess req. Raised_HTTPError response m) u a j h s)) = dlq s"
proof -
  have 1: "post L (\<lambda>sess req. Raised_HTTPError (Some mock_response_error) [])
        ''https://example.com/api'' ''{\"key\": \"value\"}'' None None None None initial_state =
     (Inl (ApiServerException ''API server: internal server error''),
      \<lparr>session = Some new_session,
       sent = [post_request L ''https://example.com/api'' ''{\"key\": \"value\"}'' None None None None],
       dlq = []\<rparr>)"
    by (simp add: post_def get_session_def handle_outcome_def parse_def Response_init_def
        mock_response_error_def get_status_def post_status_checks_def initial_state_def)
  have 2: "get L (\<lambda>sess req. Raised_HTTPError (Some mock_response_error) [])
        ''https://example.com/api'' None None None initial_state =
     (Inl (ApiServerException ''API server: internal server error''),
      \<lparr>session = Some new_session,
       sent = [get_request L ''https://example.com/api'' None None None],
       dlq = []\<rparr>)"
    by (simp add: get_def get_session_def handle_outcome_def parse_def Response_init_def
        mock_response_error_def get_status_def get_status_checks_def initial_state_def)
  show ?thesis
    by (rule conjI 1 2 post_dlq get_dlq)+
qed

subsection \<open>Header composition\<close>

text \<open>
  C5 (amended). Header composition is a function of its arguments (and of Python's
  \<^verbatim>\<open>lower\<close>). Without overrides the result is the two defaults, then the API key, the
  parent key and the bearer token formatted as \<^verbatim>\<open>Bearer <token>\<close>, each under its
  canonical name and only if given. The overrides are merged last: the value found under
  a key is the one of the last override stored under that key, and the earlier value
  only where no override is stored there. Keys are distinct. Matching is
  case-insensitive for the names whose lower-case form is one of the five keys of the
  canonical table (content-type, accept, the two API-key names, authorization): such an
  override is stored under the canonical key, and two keys of the result with the same
  lower-case form in the table are the same key. An override with any other name is
  stored under its name exactly as written, so two such names that differ only in case
  stay two keys; the claim as written, for every name, fails there.
\<close>

theorem header_composition:
  assumes "lowers_proper_case L"
  shows "prepare_headers L a p j None =
     [(ascii ''Content-Type'', ''application/json; charset=UTF-8''), (ascii ''Accept'', ''*/*'')] @
     (case a of None \<Rightarrow> [] | Some x \<Rightarrow> [(ascii ''X-AgentOps-Api-Key'', x)]) @
     (case p of None \<Rightarrow> [] | Some x \<Rightarrow> [(ascii ''X-AgentOps-Parent-Key'', x)]) @
     (case j of None \<Rightarrow> [] | Some t \<Rightarrow> [(ascii ''Authorization'', ''Bearer '' @ t)]) \<and>
   map_of (prepare_headers L a p j (Some custom)) n =
     (case map_of (rev (map (\<lambda>(k, v). (proper_case_get L k, v)) custom)) n of
        Some v \<Rightarrow> Some v
      | None \<Rightarrow> map_of (prepare_headers L a p j None) n) \<and>
   distinct (map fst (prepare_headers L a p j (Some custom))) \<and>
   (\<forall>n1 \<in> fst ` set (prepare_headers L a p j (Some custom)).
    \<forall>n2 \<in> fst ` set (prepare_headers L a p j (Some custom)).
      L n1 = L n2 \<and> L n1 \<in> fst ` set proper_case \<longrightarrow> n1 = n2) \<and>
   (\<forall>k \<in> fst ` set custom.
      proper_case_get L k \<in> fst ` set (prepare_headers L a p j (Some custom)) \<and>
      (L k \<in> fst ` set proper_case \<longrightarrow>
         map_of proper_case (L k) = Some (proper_case_get L k)) \<and>
      (L k \<notin> fst ` set proper_case \<longrightarrow> proper_case_get L k = k))"
proof -
  have 2: "map_of (prepare_headers L a p j (Some custom)) n =
     (case map_of (rev (map (\<lambda>(k, v). (proper_case_get L k, v)) custom)) n of
        Some v \<Rightarrow> Some v
      | None \<Rightarrow> map_of (prepare_headers L a p j None) n)"
    by (simp add: prepare_headers_custom merge_headers_map_of map_add_def)
  have 3: "distinct (map fst (prepare_headers L a p j (Some custom)))"
    by (simp add: prepare_headers_custom merge_headers_distinct base_distinct [OF assms])
  have 4: "\<forall>n1 \<in> fst ` set (prepare_headers L a p j (Some custom)).
    \<forall>n2 \<in> fst ` set (prepare_headers L a p j (Some custom)).
      L n1 = L n2 \<and> L n1 \<in> fst ` set proper_case \<longrightarrow> n1 = n2"
    using keys_collapse [OF assms] by blast
  have 5: "proper_case_get L k \<in> fst ` set (prepare_headers L a p j (Some custom)) \<and>
      (L k \<in> fst ` set proper_case \<longrightarrow>
         map_of proper_case (L k) = Some (proper_case_get L k)) \<and>
      (L k \<notin> fst ` set proper_case \<longrightarrow> proper_case_get L k = k)"
    if "k \<in> fst ` set custom" for k
  proof (intro conjI impI)
    show "proper_case_get L k \<in> fst ` set (prepare_headers L a p j (Some custom))"
      using that by (simp add: prepare_headers_custom merge_headers_keys)
  next
    assume "L k \<in> fst ` set proper_case"
    then obtain q where "map_of proper_case (L k) = Some q"
      by (metis domD dom_map_of_conv_image_fst)
    then show "map_of proper_case (L k) = Some (proper_case_get L k)"
      by (simp add: proper_case_get_def)
  next
    assume "L k \<notin> fst ` set proper_case"
    then have "map_of proper_case (L k) = None"
      by (simp add: map_of_eq_None_iff)
    then show "proper_case_get L k = k"
      by (simp add: proper_case_get_def)
  qed
  from prepare_headers_base [OF assms, of a p j] 2 3 4 5 show ?thesis by blast
qed

theorem header_composition_witness:
  "lowers_proper_case lower_sample \<and>
   prepare_headers lower_sample (Some ''KEY'') None (Some ''tok'')
     (Some [(ascii ''content-type'', ''text/plain''), (ascii ''Content-Type'', ''application/xml'')]) =
     [(ascii ''Content-Type'', ''application/xml''), (ascii ''Accept'', ''*/*''),
      (ascii ''X-AgentOps-Api-Key'', ''KEY''), (ascii ''Authorization'', ''Bearer tok'')] \<and>
   distinct (map fst (prepare_headers lower_sample (Some ''KEY'') None (Some ''tok'')
     (Some [(ascii ''content-type'', ''text/plain''), (ascii ''Content-Type'', ''application/xml'')]))) \<and>
   map_of proper_case (lower_sample (ascii ''content-type'')) =
     Some (proper_case_get lower_sample (ascii ''content-type'')) \<and>
   prepare_headers lower_sample (Some ''KEY'') None None
     (Some [(kelvin_api_key, ''OTHER'')]) =
     [(ascii ''Content-Type'', ''application/json; charset=UTF-8''), (ascii ''Accept'', ''*/*''),
      (ascii ''X-AgentOps-Api-Key'', ''OTHER'')]"
proof -
  let ?custom = "[(ascii ''content-type'', ''text/plain''), (ascii ''Content-Type'', ''application/xml'')]"
  let ?H = "prepare_headers lower_sample (Some ''KEY'') None (Some ''tok'') (Some ?custom)"
  note t = header_composition [OF lower_sample_proper, of "Some ''KEY''" None "Some ''tok''" ?custom
      "ascii ''Content-Type''"]
  have lc: "lower_sample (ascii ''content-type'') = ascii ''content-type''"
    "lower_sample (ascii ''Content-Type'') = ascii ''content-type''"
    by (simp_all add: lower_sample_def lower_cp_def ascii_def)
  have k: "ascii ''content-type'' \<in> fst ` set ?custom"
    by simp
  have l: "lower_sample (ascii ''content-type'') \<in> fst ` set proper_case"
    by (simp add: lc proper_case_def)
  have g: "proper_case_get lower_sample (ascii ''content-type'') = ascii ''Content-Type''"
    "proper_case_get lower_sample (ascii ''Content-Type'') = ascii ''Content-Type''"
    by (simp_all add: proper_case_get_def lc proper_case_lookup)
  have b: "prepare_headers lower_sample (Some ''KEY'') None (Some ''tok'') None =
      [(ascii ''Content-Type'', ''application/json; charset=UTF-8''), (ascii ''Accept'', ''*/*''),
       (ascii ''X-AgentOps-Api-Key'', ''KEY''), (ascii ''Authorization'', ''Bearer tok'')]"
    using t by simp
  have e: "?H = [(ascii ''Content-Type'', ''application/xml''), (ascii ''Accept'', ''*/*''),
      (ascii ''X-AgentOps-Api-Key'', ''KEY''), (ascii ''Authorization'', ''Bearer tok'')]"
    by (simp add: prepare_headers_custom b g)
  from t have d: "distinct (map fst ?H)"
    by blast
  from t k l have m: "map_of proper_case (lower_sample (ascii ''content-type'')) =
      Some (proper_case_get lower_sample (ascii ''content-type''))"
    by blast
  have kl: "lower_sample kelvin_api_key =
      ascii ''x-agentops-api-key''"
    by (simp add: kelvin_api_key_def lower_sample_def lower_cp_def ascii_def)
  have kg: "proper_case_get lower_sample kelvin_api_key =
      ascii ''X-AgentOps-Api-Key''"
    unfolding proper_case_get_def kl by (simp add: proper_case_lookup)
  have kb: "prepare_headers lower_sample (Some ''KEY'') None None None =
      [(ascii ''Content-Type'', ''application/json; charset=UTF-8''), (ascii ''Accept'', ''*/*''),
       (ascii ''X-AgentOps-Api-Key'', ''KEY'')]"
    by (simp add: prepare_headers_base [OF lower_sample_proper])
  have ke: "prepare_headers lower_sample (Some ''KEY'') None None
     (Some [(kelvin_api_key, ''OTHER'')]) =
     [(ascii ''Content-Type'', ''application/json; charset=UTF-8''), (ascii ''Accept'', ''*/*''),
      (ascii ''X-AgentOps-Api-Key'', ''OTHER'')]"
    by (simp add: prepare_headers_custom kb kg ascii_eq_iff)
  from lower_sample_proper e d m ke show ?thesis by blast
qed

theorem custom_names_counterexample:
  "lower_sample (ascii ''X-Trace'') = lower_sample (ascii ''x-trace'') \<and>
   prepare_headers lower_sample None None None
     (Some [(ascii ''X-Trace'', ''1''), (ascii ''x-trace'', ''2'')]) =
     [(ascii ''Content-Type'', ''application/json; charset=UTF-8''), (ascii ''Accept'', ''*/*''),
      (ascii ''X-Trace'', ''1''), (ascii ''x-trace'', ''2'')]"
proof -
  have l: "lower_sample (ascii ''X-Trace'') = ascii ''x-trace''"
    "lower_sample (ascii ''x-trace'') = ascii ''x-trace''"
    by (simp_all add: lower_sample_def lower_cp_def ascii_def)
  have n: "map_of proper_case (ascii ''x-trace'') = None"
    by (simp add: proper_case_def ascii_eq_iff)
  have g: "proper_case_get lower_sample (ascii ''X-Trace'') = ascii ''X-Trace''"
    "proper_case_get lower_sample (ascii ''x-trace'') = ascii ''x-trace''"
    by (simp_all add: proper_case_get_def l n)
  have b: "prepare_headers lower_sample None None None None =
      [(ascii ''Content-Type'', ''application/json; charset=UTF-8''), (ascii ''Accept'', ''*/*'')]"
    by (simp add: prepare_headers_base [OF lower_sample_proper])
  show ?thesis
    by (simp add: prepare_headers_custom b g l ascii_eq_iff)
qed

end
